theory Spec2Isabelle
  imports Complex_Main
begin

section \<open>Policy-anchored PPO: the trainer of \<^verbatim>\<open>src/ppo.py\<close>\<close>

text \<open>
  A shallow embedding of \<^verbatim>\<open>PolicyAnchoredPPO\<close>. Python floats are idealised as
  reals and Python's unbounded integers are \<^typ>\<open>int\<close>. A policy is a Python object:
  a variable or a tuple component holds a reference to it, never a copy of it, so policy
  objects live in an explicit store (\<open>heap\<close>: address to parameter vector) and the
  trainer's fields hold addresses. Whatever belongs to the tensor library or to
  stable-baselines3 (the forward pass, back-propagation, the optimiser, the rollout
  buffer) is a parameter of the model.
\<close>

subsection \<open>Errors, printed lines, the trainer's state\<close>

datatype error = AssertionError | IndexError | ZeroDivisionError

text \<open>What \<^verbatim>\<open>print\<close> writes, one constructor per message, with the numbers it formats.\<close>

datatype message =
    SavingGoodPolicy
  | TaskChangeDetected "real option" "real option" "real option"
  | EarlyStopping nat real

text \<open>One entry of \<^verbatim>\<open>self.good_policies\<close>: the tuple (policy, reward, num_timesteps).\<close>

type_synonym good_policy = "nat \<times> real \<times> int"

record trainer =
  heap :: "nat \<Rightarrow> real list"
  policy :: nat
  anchor_policy :: "nat option"
  anchor_policy_timestep :: int
  good_policies :: "good_policy list"
  gp_threshold :: real
  gp_k :: int
  previous_rewards :: "real list"
  td_counter :: int
  episodic_rewards :: "real list"
  reward_grad_window :: nat
  num_timesteps :: int
  n_steps :: int
  n_updates :: int
  stdout :: "message list"

text \<open>
  A call either returns (\<open>Inr\<close>, the state after it) or raises (\<open>Inl\<close>, the exception
  with the state at the raise: assignments made before an exception stay made).
\<close>

type_synonym outcome = "(error \<times> trainer) + trainer"

definition state_of :: "outcome \<Rightarrow> trainer" where
  "state_of r = (case r of Inl (e, st) \<Rightarrow> st | Inr st \<Rightarrow> st)"

definition raised :: "outcome \<Rightarrow> error option" where
  "raised r = (case r of Inl (e, st) \<Rightarrow> Some e | Inr st \<Rightarrow> None)"

subsection \<open>numpy and list helpers\<close>

text \<open>
  \<^verbatim>\<open>np.mean\<close> and \<^verbatim>\<open>np.std\<close> (population standard deviation). On an empty list numpy
  gives NaN with a warning and no exception: \<open>None\<close> here.
\<close>

definition np_mean :: "real list \<Rightarrow> real option" where
  "np_mean xs = (if xs = [] then None else Some (sum_list xs / real (length xs)))"

definition np_std :: "real list \<Rightarrow> real option" where
  "np_std xs =
     (if xs = [] then None
      else let m = sum_list xs / real (length xs)
           in Some (sqrt (sum_list (map (\<lambda>x. (x - m)\<^sup>2) xs) / real (length xs))))"

text \<open>\<^verbatim>\<open>deque(maxlen=n).append(x)\<close>: the oldest entries fall out on the left.\<close>

definition deque_append :: "nat \<Rightarrow> 'a list \<Rightarrow> 'a \<Rightarrow> 'a list" where
  "deque_append maxlen xs x = (let ys = xs @ [x] in drop (length ys - maxlen) ys)"

text \<open>\<^verbatim>\<open>xs[:k]\<close>: a negative \<open>k\<close> counts from the end.\<close>

definition slice_to :: "'a list \<Rightarrow> int \<Rightarrow> 'a list" where
  "slice_to xs k = (if k < 0 then take (nat (int (length xs) + k)) xs else take (nat k) xs)"

text \<open>
  \<^verbatim>\<open>xs.sort(key=lambda x: x[2], reverse=True)\<close>: descending in the third component
  and stable (entries with equal keys keep their order), which is the stable ascending
  insertion sort on the negated key.
\<close>

definition sort_by_timestep_desc :: "good_policy list \<Rightarrow> good_policy list" where
  "sort_by_timestep_desc xs = sort_key (\<lambda>x. - snd (snd x)) xs"

subsection \<open>The good-policy archive: \<^verbatim>\<open>update_good_policies\<close>\<close>

definition update_good_policies :: "trainer \<Rightarrow> nat \<Rightarrow> real \<Rightarrow> bool \<Rightarrow> trainer" where
  "update_good_policies st pol reward task_change =
     (if reward \<ge> gp_threshold st \<or> task_change then
        st\<lparr>stdout := stdout st @ [SavingGoodPolicy],
           good_policies :=
             slice_to (sort_by_timestep_desc (good_policies st @ [(pol, reward, num_timesteps st)]))
               (gp_k st)\<rparr>
      else st)"

subsection \<open>The task-change detector: \<^verbatim>\<open>detect_task_change\<close>\<close>

text \<open>
  \<^verbatim>\<open>self.num_timesteps // 1e6\<close> is a float floor division of an integer; below
  \<open>2^53\<close> in absolute value it is the exact floor, which is \<open>div\<close> on \<^typ>\<open>int\<close>
  (rounding towards minus infinity, as Python does).
\<close>

definition boundary_crossed :: "trainer \<Rightarrow> bool" where
  "boundary_crossed st =
     (num_timesteps st div 1000000 \<noteq> (num_timesteps st - n_steps st) div 1000000)"

definition detect_task_change :: "trainer \<Rightarrow> real list \<Rightarrow> outcome" where
  "detect_task_change st current_rewards =
     (if length (previous_rewards st) = 0 then Inr st
      else
        let prev_mean = np_mean (previous_rewards st);
            prev_std = np_std (previous_rewards st);
            current_mean = np_mean current_rewards
        in if boundary_crossed st then
             let st1 = st\<lparr>stdout := stdout st @ [TaskChangeDetected current_mean prev_mean prev_std],
                          td_counter := td_counter st + 1\<rparr>
             in (case good_policies st1 of
                   [] \<Rightarrow> Inl (IndexError, st1)
                 | g # gs \<Rightarrow>
                     Inr (st1\<lparr>anchor_policy := Some (fst g),
                              anchor_policy_timestep := snd (snd g)\<rparr>))
           else Inr st)"

text \<open>
  The tail of \<^verbatim>\<open>train\<close> (the block between the "task change detection" comments):
  \<open>ep_info_buffer\<close> is the list of the returns \<^verbatim>\<open>ep_info["r"]\<close> of the episode buffer.
\<close>

definition train_task_change :: "trainer \<Rightarrow> real list \<Rightarrow> outcome" where
  "train_task_change st ep_info_buffer =
     (case np_mean ep_info_buffer of
        None \<Rightarrow> Inr st
      | Some accumulated_rewards \<Rightarrow>
          let current_rewards = ep_info_buffer;
              st1 = st\<lparr>episodic_rewards :=
                         deque_append (reward_grad_window st) (episodic_rewards st) accumulated_rewards\<rparr>
          in (case detect_task_change st1 current_rewards of
                Inl ex \<Rightarrow> Inl ex
              | Inr st2 \<Rightarrow>
                  let st3 = st2\<lparr>previous_rewards := current_rewards\<rparr>
                  in Inr (update_good_policies st3 (policy st3) accumulated_rewards False)))"

subsection \<open>The state after \<^verbatim>\<open>__init__\<close>\<close>

text \<open>
  The fields \<^verbatim>\<open>__init__\<close> sets, for a live policy object stored at \<open>addr\<close> with
  parameters \<open>params\<close>; the step and update counters start at zero in the base class.
\<close>

definition init_trainer :: "real \<Rightarrow> int \<Rightarrow> int \<Rightarrow> nat \<Rightarrow> nat \<Rightarrow> real list \<Rightarrow> trainer" where
  "init_trainer threshold k steps window addr params =
     \<lparr>heap = (\<lambda>a. [])(addr := params), policy = addr,
      anchor_policy = None, anchor_policy_timestep = - 1,
      good_policies = [], gp_threshold = threshold, gp_k = k,
      previous_rewards = [], td_counter = 0,
      episodic_rewards = [], reward_grad_window = window,
      num_timesteps = 0, n_steps = steps, n_updates = 0, stdout = []\<rparr>"

subsection \<open>Construction checks: the sanity block of \<^verbatim>\<open>__init__\<close>\<close>

datatype warning = TruncatedMiniBatch int int int

text \<open>
  The two assertions and the divisibility warning, in the source's order.
  \<open>env_num_envs\<close> is \<open>None\<close> when \<^verbatim>\<open>self.env is None\<close>. The warning carries the
  buffer size, the number of untruncated mini-batches and the size of the truncated
  one. \<^verbatim>\<open>buffer_size // batch_size\<close> raises on a zero divisor before the warning
  is considered; \<open>div\<close> and \<open>mod\<close> on \<^typ>\<open>int\<close> round as Python's do.
\<close>

definition init_checks :: "bool \<Rightarrow> int \<Rightarrow> int \<Rightarrow> int option \<Rightarrow> error + warning list" where
  "init_checks normalize_adv batch_sz steps env_num_envs =
     (if normalize_adv \<and> \<not> batch_sz > 1 then Inl AssertionError
      else
        (case env_num_envs of
           None \<Rightarrow> Inr []
         | Some num_envs \<Rightarrow>
             let buffer_size = num_envs * steps
             in if \<not> (buffer_size > 1 \<or> \<not> normalize_adv) then Inl AssertionError
                else if batch_sz = 0 then Inl ZeroDivisionError
                else if buffer_size mod batch_sz > 0 then
                  Inr [TruncatedMiniBatch buffer_size (buffer_size div batch_sz)
                         (buffer_size mod batch_sz)]
                else Inr []))"

subsection \<open>The numeric pieces of one mini-batch\<close>

text \<open>
  Advantage normalisation. \<^verbatim>\<open>advantages.std()\<close> is the sample standard deviation
  (divisor \<open>n - 1\<close>); the branch is entered only for more than one advantage.
\<close>

definition th_std :: "real list \<Rightarrow> real" where
  "th_std xs =
     (let m = sum_list xs / real (length xs)
      in sqrt (sum_list (map (\<lambda>x. (x - m)\<^sup>2) xs) / (real (length xs) - 1)))"

definition normalize_advantages :: "bool \<Rightarrow> real list \<Rightarrow> real list" where
  "normalize_advantages normalize_adv advantages =
     (if normalize_adv \<and> length advantages > 1 then
        map (\<lambda>a. (a - sum_list advantages / real (length advantages))
                    / (th_std advantages + 1 / 10 ^ 8)) advantages
      else advantages)"

text \<open>\<^verbatim>\<open>th.clamp(x, lo, hi)\<close>.\<close>

definition th_clamp :: "real \<Rightarrow> real \<Rightarrow> real \<Rightarrow> real" where
  "th_clamp x lo hi = min (max x lo) hi"

text \<open>
  A tensor of log-probabilities is a list of rows, one row per sampled state; a
  one-dimensional tensor has rows of length one. \<^verbatim>\<open>th.mean\<close> averages over every
  entry of the tensor, and is NaN (\<open>None\<close>) on a tensor without entries.
\<close>

type_synonym tensor = "real list list"

definition th_mean :: "tensor \<Rightarrow> real option" where
  "th_mean t =
     (let xs = concat t in if xs = [] then None else Some (sum_list xs / real (length xs)))"

text \<open>
  The anchor term of one mini-batch. The arguments are what the two forward passes on
  the sampled states return as log-probabilities (two tensors of one shape); the first
  is \<open>None\<close> when \<^verbatim>\<open>self.anchor_policy is None\<close>.
\<close>

definition anchor_policy_kl_div :: "tensor option \<Rightarrow> tensor \<Rightarrow> real option" where
  "anchor_policy_kl_div anchor_policy_log_probs curr_policy_log_probs =
     (case anchor_policy_log_probs of
        None \<Rightarrow> Some 0
      | Some alp \<Rightarrow>
          th_mean (map2 (map2 (\<lambda>la lc. exp la * (la - lc))) alp curr_policy_log_probs))"

text \<open>
  The clipped surrogate of one sample, and the unreduced policy loss of a mini-batch
  (the tensor the source then reduces with \<^verbatim>\<open>.mean()\<close>); a NaN anchor term makes the
  whole loss NaN.
\<close>

definition clipped_surrogate :: "real \<Rightarrow> real \<Rightarrow> real \<Rightarrow> real" where
  "clipped_surrogate advantage ratio clip_range =
     min (advantage * ratio) (advantage * th_clamp ratio (1 - clip_range) (1 + clip_range))"

definition policy_loss :: "real list \<Rightarrow> real list \<Rightarrow> real \<Rightarrow> real \<Rightarrow> real option \<Rightarrow> real list option" where
  "policy_loss advantages ratio clip_range anchor_pol_kl_coef kl_div =
     map_option
       (\<lambda>kl. map2 (\<lambda>a r. - clipped_surrogate a r clip_range + anchor_pol_kl_coef * kl)
                advantages ratio)
       kl_div"


subsection \<open>The update loop of \<^verbatim>\<open>train\<close>\<close>

text \<open>
  What the loop takes from outside: the configuration, the mini-batches that
  \<^verbatim>\<open>rollout_buffer.get(batch_size)\<close> yields in each epoch, the approximate KL
  divergence of a mini-batch under the current parameters, and the parameters that
  result from \<^verbatim>\<open>zero_grad\<close>, \<^verbatim>\<open>backward\<close>, \<^verbatim>\<open>clip_grad_norm_\<close> (at \<open>max_grad_norm\<close>) and
  \<^verbatim>\<open>optimizer.step\<close> on the mini-batch's loss, which is computed from the live
  parameters and the anchor's.
\<close>

record 'b engine =
  target_kl :: "real option"
  verbose :: int
  n_epochs :: int
  rollout_get :: "nat \<Rightarrow> 'b list"
  approx_kl_div :: "real list \<Rightarrow> 'b \<Rightarrow> real"
  optimization_step :: "real list \<Rightarrow> real list option \<Rightarrow> 'b \<Rightarrow> real list"

definition kl_exceeds :: "'b engine \<Rightarrow> trainer \<Rightarrow> 'b \<Rightarrow> bool" where
  "kl_exceeds E st b =
     (case target_kl E of
        None \<Rightarrow> False
      | Some t \<Rightarrow> approx_kl_div E (heap st (policy st)) b > 1.5 * t)"

text \<open>The optimiser writes the new parameters into the live policy object, in place.\<close>

definition gradient_step :: "'b engine \<Rightarrow> trainer \<Rightarrow> 'b \<Rightarrow> trainer" where
  "gradient_step E st b =
     st\<lparr>heap := (heap st)(policy st :=
           optimization_step E (heap st (policy st)) (map_option (heap st) (anchor_policy st)) b)\<rparr>"

text \<open>The early-stopping line, printed when \<^verbatim>\<open>self.verbose >= 1\<close>.\<close>

definition report_stop :: "'b engine \<Rightarrow> nat \<Rightarrow> trainer \<Rightarrow> 'b \<Rightarrow> trainer" where
  "report_stop E epoch st b =
     (if verbose E \<ge> 1 then
        st\<lparr>stdout := stdout st @ [EarlyStopping epoch (approx_kl_div E (heap st (policy st)) b)]\<rparr>
      else st)"

text \<open>
  The inner loop over the mini-batches of one epoch; the first component of the result
  is \<^verbatim>\<open>continue_training\<close>. The KL test stands before the optimisation step, and
  \<^verbatim>\<open>break\<close> leaves the loop without it.
\<close>

fun minibatch_loop :: "'b engine \<Rightarrow> nat \<Rightarrow> 'b list \<Rightarrow> trainer \<Rightarrow> bool \<times> trainer" where
  "minibatch_loop E epoch [] st = (True, st)"
| "minibatch_loop E epoch (b # bs) st =
     (if kl_exceeds E st b then (False, report_stop E epoch st b)
      else minibatch_loop E epoch bs (gradient_step E st b))"

fun epoch_loop :: "'b engine \<Rightarrow> nat list \<Rightarrow> trainer \<Rightarrow> trainer" where
  "epoch_loop E [] st = st"
| "epoch_loop E (epoch # epochs) st =
     (case minibatch_loop E epoch (rollout_get E epoch) st of
        (continue_training, st1) \<Rightarrow>
          let st2 = st1\<lparr>n_updates := n_updates st1 + 1\<rparr>
          in if \<not> continue_training then st2 else epoch_loop E epochs st2)"

text \<open>
  \<^verbatim>\<open>for epoch in range(self.n_epochs)\<close>, then the task-change block. The logger calls
  that end \<^verbatim>\<open>train\<close> are left out: they change nothing of the trainer's state, and
  they read variables that the loop binds, so \<open>train\<close> stands for a call in which at
  least one mini-batch is looked at.
\<close>

definition train_update :: "'b engine \<Rightarrow> trainer \<Rightarrow> trainer" where
  "train_update E st = epoch_loop E [0 ..< nat (n_epochs E)] st"

definition train :: "'b engine \<Rightarrow> trainer \<Rightarrow> real list \<Rightarrow> outcome" where
  "train E st ep_info_buffer = train_task_change (train_update E st) ep_info_buffer"

text \<open>The gradient steps alone, one per mini-batch, with no early-stop check.\<close>

fun gradient_steps :: "'b engine \<Rightarrow> 'b list \<Rightarrow> trainer \<Rightarrow> trainer" where
  "gradient_steps E [] st = st"
| "gradient_steps E (b # bs) st = gradient_steps E bs (gradient_step E st b)"

subsection \<open>Observations of a run\<close>

text \<open>
  A task change is declared by a detector call when the call takes the branch that
  prints the detection and increments \<open>td_counter\<close>.
\<close>

definition task_change_declared :: "trainer \<Rightarrow> real list \<Rightarrow> bool" where
  "task_change_declared st current_rewards =
     (td_counter (state_of (detect_task_change st current_rewards)) = td_counter st + 1)"

text \<open>
  What the archive's records and the anchor read as: the parameters now stored at the
  addresses they hold.
\<close>

definition snapshot_params :: "trainer \<Rightarrow> real list list" where
  "snapshot_params st = map (\<lambda>g. heap st (fst g)) (good_policies st)"

definition anchor_params :: "trainer \<Rightarrow> real list option" where
  "anchor_params st = map_option (heap st) (anchor_policy st)"

text \<open>
  Training iterations: the rollout collection advances the step counter to
  \<open>timesteps\<close> and fills the episode buffer, then \<^verbatim>\<open>train\<close> runs. An exception ends
  the run.
\<close>

fun train_iterations :: "'b engine \<Rightarrow> trainer \<Rightarrow> (int \<times> real list) list \<Rightarrow> outcome" where
  "train_iterations E st [] = Inr st"
| "train_iterations E st ((timesteps, ep_info_buffer) # rest) =
     (case train E (st\<lparr>num_timesteps := timesteps\<rparr>) ep_info_buffer of
        Inl ex \<Rightarrow> Inl ex
      | Inr st' \<Rightarrow> train_iterations E st' rest)"

subsection \<open>Scenarios and concrete states\<close>

text \<open>
  A sequence of archive calls as \<^verbatim>\<open>train\<close> makes them: each with the live policy, a
  mean reward, the step counter at that iteration, and no task-change flag.
\<close>

definition archive_calls :: "trainer \<Rightarrow> (real \<times> int) list \<Rightarrow> trainer" where
  "archive_calls st calls =
     fold (\<lambda>(reward, timestep) s.
             update_good_policies (s\<lparr>num_timesteps := timestep\<rparr>) (policy s) reward False)
       calls st"

text \<open>The archive's order: no entry is followed by one with a larger timestep.\<close>

definition newest_first :: "good_policy list \<Rightarrow> bool" where
  "newest_first xs = sorted_wrt (\<lambda>a b. snd (snd b) \<le> snd (snd a)) xs"

definition c6_state :: trainer where
  "c6_state = (init_trainer 0.5 2 512 196 0 [1])\<lparr>num_timesteps := 300,
      good_policies := [(0, 0.6, 200), (0, 0.55, 100)]\<rparr>"

definition c10_state :: trainer where
  "c10_state = (init_trainer 0.5 5 512 196 0 [1])\<lparr>num_timesteps := 1024,
      good_policies := [(0, 0.8, 512)], previous_rewards := [0.8]\<rparr>"

text \<open>
  An update engine with one epoch of one mini-batch, no KL target, and an optimiser
  that adds one to every parameter.
\<close>

definition unit_engine :: "unit engine" where
  "unit_engine = \<lparr>target_kl = None, verbose = 1, n_epochs = 1, rollout_get = (\<lambda>epoch. [()]),
      approx_kl_div = (\<lambda>params b. 0),
      optimization_step = (\<lambda>params anchor b. map (\<lambda>x. x + 1) params)\<rparr>"

text \<open>
  A trainer (threshold 0.5, capacity 5, one policy object at address 0) at a given
  step count, rollout length, cached previous rewards and archive.
\<close>

definition detector_state :: "int \<Rightarrow> int \<Rightarrow> real list \<Rightarrow> good_policy list \<Rightarrow> trainer" where
  "detector_state timesteps steps prev gps =
     (init_trainer 0.5 5 steps 196 0 [1])\<lparr>num_timesteps := timesteps,
        previous_rewards := prev, good_policies := gps\<rparr>"

text \<open>
  An update engine with a KL target of 0.5, three epochs of two mini-batches, an
  approximate KL of (sum of the parameters) - 1 and an optimiser that adds one to every
  parameter: from the parameters \<open>[1]\<close> the first mini-batch passes the test (KL 0) and
  the second does not (KL 1 against the bound 0.75).
\<close>

definition stop_engine :: "unit engine" where
  "stop_engine = \<lparr>target_kl = Some 0.5, verbose = 1, n_epochs = 3,
      rollout_get = (\<lambda>epoch. [(), ()]),
      approx_kl_div = (\<lambda>params b. sum_list params - 1),
      optimization_step = (\<lambda>params anchor b. map (\<lambda>x. x + 1) params)\<rparr>"

section \<open>Properties\<close>

subsection \<open>The good-policy archive\<close>

lemma slice_to_length: "0 \<le> k \<Longrightarrow> int (length (slice_to xs k)) \<le> k"
  by (simp add: slice_to_def)

lemma newest_first_sort: "newest_first (sort_by_timestep_desc xs)"
proof -
  have "sorted (map (\<lambda>x. - snd (snd x)) (sort_by_timestep_desc xs))"
    by (simp add: sort_by_timestep_desc_def)
  then show ?thesis
    by (simp add: sorted_map newest_first_def)
qed

lemma newest_first_slice: "newest_first xs \<Longrightarrow> newest_first (slice_to xs k)"
  by (simp add: slice_to_def newest_first_def sorted_wrt_take)

lemma update_good_policies_gp_k: "gp_k (update_good_policies st pol reward tc) = gp_k st"
  by (simp add: update_good_policies_def)

lemma update_good_policies_length:
  "0 \<le> gp_k st \<Longrightarrow> int (length (good_policies st)) \<le> gp_k st \<Longrightarrow>
   int (length (good_policies (update_good_policies st pol reward tc))) \<le> gp_k st"
  by (simp add: update_good_policies_def slice_to_length)

lemma update_good_policies_newest_first:
  "newest_first (good_policies st) \<Longrightarrow>
   newest_first (good_policies (update_good_policies st pol reward tc))"
  by (simp add: update_good_policies_def newest_first_slice newest_first_sort)

text \<open>Capacity and order are invariants of any sequence of archive calls.\<close>

lemma archive_calls_invariant:
  "0 \<le> gp_k st \<Longrightarrow> int (length (good_policies st)) \<le> gp_k st \<Longrightarrow>
   newest_first (good_policies st) \<Longrightarrow>
   gp_k (archive_calls st calls) = gp_k st \<and>
   int (length (good_policies (archive_calls st calls))) \<le> gp_k st \<and>
   newest_first (good_policies (archive_calls st calls))"
proof (induction calls arbitrary: st)
  case Nil
  then show ?case by (simp add: archive_calls_def)
next
  case (Cons c calls)
  obtain reward timestep where c: "c = (reward, timestep)" by (cases c)
  let ?s = "update_good_policies (st\<lparr>num_timesteps := timestep\<rparr>) (policy st) reward False"
  have step: "archive_calls st (c # calls) = archive_calls ?s calls"
    by (simp add: archive_calls_def c)
  have k: "gp_k ?s = gp_k st" by (simp add: update_good_policies_gp_k)
  have len: "int (length (good_policies ?s)) \<le> gp_k ?s"
    using Cons.prems update_good_policies_length [of "st\<lparr>num_timesteps := timestep\<rparr>"]
    by (simp add: k)
  have srt: "newest_first (good_policies ?s)"
    using Cons.prems update_good_policies_newest_first [of "st\<lparr>num_timesteps := timestep\<rparr>"]
    by simp
  from Cons.IH [of ?s] Cons.prems k len srt show ?case
    by (simp add: step)
qed

text \<open>
  C6. The archive admits a record exactly when the reward reaches \<open>gp_threshold\<close> or the
  task-change flag is set: the new archive is then the old one with the record
  \<open>(policy, reward, num_timesteps)\<close> appended, sorted by timestep descending and cut to
  its first \<open>gp_k\<close> entries; otherwise it is the old one. After an admission the archive
  is ordered newest first and, for a capacity \<open>gp_k \<ge> 0\<close>, holds at most \<open>gp_k\<close>
  entries; both hold after any sequence of calls on a freshly constructed trainer. With
  \<open>gp_threshold = 0.5\<close> and \<open>gp_k = 2\<close> the calls (0.3, 100), (0.6, 200), (0.7, 300),
  (0.9, 400) leave the records of timesteps 400 and 300, in that order: 100 is never
  admitted (the archive after two calls holds 200 alone), and 200 is admitted, kept
  after the third call and dropped by the truncation of the fourth.
\<close>

theorem good_policy_archive_admission_retention:
  "good_policies (update_good_policies st pol reward task_change) =
     (if reward \<ge> gp_threshold st \<or> task_change
      then slice_to (sort_by_timestep_desc (good_policies st @ [(pol, reward, num_timesteps st)]))
             (gp_k st)
      else good_policies st)
   \<and> (reward \<ge> gp_threshold st \<or> task_change \<longrightarrow>
        newest_first (good_policies (update_good_policies st pol reward task_change)))
   \<and> (0 \<le> gp_k st \<and> (reward \<ge> gp_threshold st \<or> task_change) \<longrightarrow>
        int (length (good_policies (update_good_policies st pol reward task_change))) \<le> gp_k st)
   \<and> (0 \<le> k \<longrightarrow>
        int (length (good_policies
          (archive_calls (init_trainer threshold k steps window addr params) calls))) \<le> k
        \<and> newest_first (good_policies
          (archive_calls (init_trainer threshold k steps window addr params) calls)))
   \<and> map (snd \<circ> snd) (good_policies (archive_calls (init_trainer 0.5 2 steps window addr params)
         [(0.3, 100), (0.6, 200)])) = [200]
   \<and> map (snd \<circ> snd) (good_policies (archive_calls (init_trainer 0.5 2 steps window addr params)
         [(0.3, 100), (0.6, 200), (0.7, 300)])) = [300, 200]
   \<and> good_policies (archive_calls (init_trainer 0.5 2 steps window addr params)
         [(0.3, 100), (0.6, 200), (0.7, 300), (0.9, 400)]) = [(addr, 0.9, 400), (addr, 0.7, 300)]"
proof (intro conjI impI)
  show "good_policies (update_good_policies st pol reward task_change) =
     (if reward \<ge> gp_threshold st \<or> task_change
      then slice_to (sort_by_timestep_desc (good_policies st @ [(pol, reward, num_timesteps st)]))
             (gp_k st)
      else good_policies st)"
    by (simp add: update_good_policies_def)
next
  assume "reward \<ge> gp_threshold st \<or> task_change"
  then show "newest_first (good_policies (update_good_policies st pol reward task_change))"
    by (simp add: update_good_policies_def newest_first_slice newest_first_sort)
next
  assume "0 \<le> gp_k st \<and> (reward \<ge> gp_threshold st \<or> task_change)"
  then show "int (length (good_policies (update_good_policies st pol reward task_change))) \<le> gp_k st"
    by (simp add: update_good_policies_def slice_to_length)
next
  let ?i = "init_trainer threshold k steps window addr params"
  assume k: "0 \<le> k"
  have i: "gp_k ?i = k" "good_policies ?i = []" by (simp_all add: init_trainer_def)
  from k i archive_calls_invariant [of ?i calls]
  show "int (length (good_policies (archive_calls ?i calls))) \<le> k"
    by (simp add: newest_first_def)
  from k i archive_calls_invariant [of ?i calls]
  show "newest_first (good_policies (archive_calls ?i calls))"
    by (simp add: newest_first_def)
next
  show "map (snd \<circ> snd) (good_policies (archive_calls (init_trainer 0.5 2 steps window addr params)
         [(0.3, 100), (0.6, 200)])) = [200]"
    by (simp add: archive_calls_def init_trainer_def update_good_policies_def slice_to_def
        sort_by_timestep_desc_def)
next
  show "map (snd \<circ> snd) (good_policies (archive_calls (init_trainer 0.5 2 steps window addr params)
         [(0.3, 100), (0.6, 200), (0.7, 300)])) = [300, 200]"
    by (simp add: archive_calls_def init_trainer_def update_good_policies_def slice_to_def
        sort_by_timestep_desc_def)
next
  show "good_policies (archive_calls (init_trainer 0.5 2 steps window addr params)
         [(0.3, 100), (0.6, 200), (0.7, 300), (0.9, 400)]) = [(addr, 0.9, 400), (addr, 0.7, 300)]"
    by (simp add: archive_calls_def init_trainer_def update_good_policies_def slice_to_def
        sort_by_timestep_desc_def)
qed

theorem good_policy_archive_witness:
  "(gp_threshold c6_state \<le> 0.7 \<or> False) \<and> 0 \<le> gp_k c6_state \<and> (0::int) \<le> 2
   \<and> newest_first (good_policies (update_good_policies c6_state 0 0.7 False))
   \<and> int (length (good_policies (update_good_policies c6_state 0 0.7 False))) \<le> gp_k c6_state
   \<and> int (length (good_policies (archive_calls (init_trainer 0.5 2 512 196 0 [1])
        [(0.6, 200), (0.7, 300), (0.9, 400)]))) \<le> 2"
proof -
  have a: "gp_threshold c6_state \<le> 0.7 \<or> False"
    by (simp add: c6_state_def init_trainer_def)
  have b: "0 \<le> gp_k c6_state"
    by (simp add: c6_state_def init_trainer_def)
  have c: "(0::int) \<le> 2"
    by simp
  from a b c
    good_policy_archive_admission_retention
      [of c6_state 0 "0.7" False 2 "0.5" 512 196 0 "[1]" "[(0.6, 200), (0.7, 300), (0.9, 400)]"]
  show ?thesis
    by blast
qed

text \<open>
  C10. A call of the archive's update with a reward below \<open>gp_threshold\<close> and the
  task-change flag false changes nothing: it returns the trainer's state as it was, the
  archive's contents and order, the printed output and every other field included.
\<close>

theorem update_good_policies_below_threshold_noop:
  "reward < gp_threshold st \<Longrightarrow> \<not> task_change \<Longrightarrow>
   update_good_policies st pol reward task_change = st"
  by (simp add: update_good_policies_def)

theorem update_good_policies_noop_witness:
  "0.3 < gp_threshold c10_state \<and> update_good_policies c10_state 7 0.3 False = c10_state"
proof -
  have a: "0.3 < gp_threshold c10_state"
    by (simp add: c10_state_def init_trainer_def)
  from a update_good_policies_below_threshold_noop [of "0.3" c10_state False 7]
  show ?thesis
    by simp
qed

subsection \<open>The task-change detector\<close>

lemma detect_first_call: "previous_rewards st = [] \<Longrightarrow> detect_task_change st cr = Inr st"
  by (simp add: detect_task_change_def)

lemma declared_iff:
  "previous_rewards st \<noteq> [] \<Longrightarrow> task_change_declared st cr = boundary_crossed st"
  by (cases "good_policies st")
    (simp_all add: task_change_declared_def detect_task_change_def state_of_def Let_def)

lemma declared_first_call: "previous_rewards st = [] \<Longrightarrow> \<not> task_change_declared st cr"
  by (simp add: task_change_declared_def detect_first_call state_of_def)

lemma update_good_policies_td_counter:
  "td_counter (update_good_policies st pol reward tc) = td_counter st"
  by (simp add: update_good_policies_def)

lemma train_task_change_empty: "train_task_change st [] = Inr st"
  by (simp add: train_task_change_def np_mean_def)

lemma train_task_change_td_counter:
  assumes "ep \<noteq> []"
  shows "td_counter (state_of (train_task_change st ep)) =
         td_counter (state_of (detect_task_change
           (st\<lparr>episodic_rewards := deque_append (reward_grad_window st) (episodic_rewards st)
                  (sum_list ep / real (length ep))\<rparr>) ep))"
  using assms
  by (simp add: train_task_change_def np_mean_def Let_def state_of_def
      update_good_policies_td_counter split: sum.splits prod.splits)

lemma train_declared:
  assumes "ep \<noteq> []"
  shows "(td_counter (state_of (train_task_change st ep)) = td_counter st + 1) =
         task_change_declared st ep"
proof -
  let ?st1 = "st\<lparr>episodic_rewards := deque_append (reward_grad_window st) (episodic_rewards st)
                  (sum_list ep / real (length ep))\<rparr>"
  have "task_change_declared ?st1 ep = task_change_declared st ep"
  proof (cases "previous_rewards st = []")
    case True
    then show ?thesis by (simp add: declared_first_call)
  next
    case False
    then show ?thesis by (simp add: declared_iff boundary_crossed_def)
  qed
  then show ?thesis
    using train_task_change_td_counter [OF assms, of st]
    by (simp add: task_change_declared_def)
qed

lemmas run_simps = detector_state_def init_trainer_def detect_task_change_def
  boundary_crossed_def state_of_def raised_def task_change_declared_def np_mean_def np_std_def
  train_task_change_def deque_append_def update_good_policies_def slice_to_def
  sort_by_timestep_desc_def train_def train_update_def unit_engine_def kl_exceeds_def
  gradient_step_def report_stop_def snapshot_params_def anchor_params_def Let_def upt_rec

text \<open>
  C4, the claim as stated fails: on the first detector call of a run whose rollout is
  one million steps long, the step count has crossed a million-step boundary (the two
  floors are 1 and 0), yet nothing is declared, because no previous rewards are cached
  and the detector returns at once.
\<close>

theorem detect_task_change_first_call_counterexample:
  "num_timesteps (detector_state 1000000 1000000 [] []) div 1000000 \<noteq>
     (num_timesteps (detector_state 1000000 1000000 [] [])
        - n_steps (detector_state 1000000 1000000 [] [])) div 1000000
   \<and> \<not> task_change_declared (detector_state 1000000 1000000 [] []) [1]
   \<and> detect_task_change (detector_state 1000000 1000000 [] []) [1]
       = Inr (detector_state 1000000 1000000 [] [])"
  by (simp add: detector_state_def init_trainer_def task_change_declared_def
      detect_task_change_def state_of_def)

text \<open>
  C4, amended. A detector call that finds cached previous rewards declares a task
  change if and only if \<open>floor(num_timesteps / 1,000,000)\<close> differs from
  \<open>floor((num_timesteps - n_steps) / 1,000,000)\<close>; a call that finds none returns at
  once and declares nothing. With \<open>n_steps = 512\<close>, over iterations at 999,288,
  999,800, 1,000,312 and 1,000,824 steps the counter of task changes is 0 after the
  second, 1 after the third (the call that crosses the boundary) and still 1 after the
  fourth, which stays in the same million-step band.
\<close>

theorem detect_task_change_trigger:
  "(previous_rewards st \<noteq> [] \<longrightarrow>
      task_change_declared st cr =
        (num_timesteps st div 1000000 \<noteq> (num_timesteps st - n_steps st) div 1000000))
   \<and> (previous_rewards st = [] \<longrightarrow>
        detect_task_change st cr = Inr st \<and> \<not> task_change_declared st cr)
   \<and> td_counter (state_of (train_iterations unit_engine (init_trainer 0.5 5 512 196 0 [1])
        [(999288, [1]), (999800, [1])])) = 0
   \<and> td_counter (state_of (train_iterations unit_engine (init_trainer 0.5 5 512 196 0 [1])
        [(999288, [1]), (999800, [1]), (1000312, [1])])) = 1
   \<and> td_counter (state_of (train_iterations unit_engine (init_trainer 0.5 5 512 196 0 [1])
        [(999288, [1]), (999800, [1]), (1000312, [1]), (1000824, [1])])) = 1"
proof (intro conjI impI)
  assume "previous_rewards st \<noteq> []"
  then show "task_change_declared st cr =
        (num_timesteps st div 1000000 \<noteq> (num_timesteps st - n_steps st) div 1000000)"
    by (simp add: declared_iff boundary_crossed_def)
next
  assume "previous_rewards st = []"
  then show "detect_task_change st cr = Inr st"
    by (rule detect_first_call)
next
  assume "previous_rewards st = []"
  then show "\<not> task_change_declared st cr"
    by (rule declared_first_call)
next
  show "td_counter (state_of (train_iterations unit_engine (init_trainer 0.5 5 512 196 0 [1])
        [(999288, [1]), (999800, [1])])) = 0"
    by (simp add: run_simps)
next
  show "td_counter (state_of (train_iterations unit_engine (init_trainer 0.5 5 512 196 0 [1])
        [(999288, [1]), (999800, [1]), (1000312, [1])])) = 1"
    by (simp add: run_simps)
next
  show "td_counter (state_of (train_iterations unit_engine (init_trainer 0.5 5 512 196 0 [1])
        [(999288, [1]), (999800, [1]), (1000312, [1]), (1000824, [1])])) = 1"
    by (simp add: run_simps)
qed

theorem detect_task_change_trigger_witness:
  "previous_rewards (detector_state 1000312 512 [1] [(0, 0.8, 999800)]) \<noteq> []
   \<and> task_change_declared (detector_state 1000312 512 [1] [(0, 0.8, 999800)]) [0.9]
   \<and> previous_rewards (detector_state 1000824 512 [1] [(0, 0.8, 999800)]) \<noteq> []
   \<and> \<not> task_change_declared (detector_state 1000824 512 [1] [(0, 0.8, 999800)]) [0.9]
   \<and> previous_rewards (detector_state 1000312 512 [] []) = []
   \<and> detect_task_change (detector_state 1000312 512 [] []) [0.9]
       = Inr (detector_state 1000312 512 [] [])"
proof -
  let ?a = "detector_state 1000312 512 [1] [(0, 0.8, 999800)]"
  let ?b = "detector_state 1000824 512 [1] [(0, 0.8, 999800)]"
  let ?c = "detector_state 1000312 512 [] []"
  have a: "previous_rewards ?a \<noteq> []" and b: "previous_rewards ?b \<noteq> []"
    and c: "previous_rewards ?c = []"
    by (simp_all add: detector_state_def)
  have na: "num_timesteps ?a div 1000000 \<noteq> (num_timesteps ?a - n_steps ?a) div 1000000"
    by (simp add: detector_state_def init_trainer_def)
  have nb: "num_timesteps ?b div 1000000 = (num_timesteps ?b - n_steps ?b) div 1000000"
    by (simp add: detector_state_def init_trainer_def)
  from a na detect_task_change_trigger [of ?a "[0.9]"]
  have ta: "task_change_declared ?a [0.9]" by blast
  from b nb detect_task_change_trigger [of ?b "[0.9]"]
  have tb: "\<not> task_change_declared ?b [0.9]" by blast
  from c detect_task_change_trigger [of ?c "[0.9]"]
  have tc: "detect_task_change ?c [0.9] = Inr ?c" by blast
  from a b c ta tb tc show ?thesis by blast
qed

text \<open>
  C5, the claim as stated fails: two detector calls at the same step count 1,000,312
  with the same rollout length 512 decide differently, one with cached previous
  rewards (declared) and one without (not declared); and with an empty episode buffer
  \<^verbatim>\<open>train\<close> does not call the detector at all, although the boundary is crossed and
  previous rewards are cached.
\<close>

theorem detector_decision_counterexample:
  "num_timesteps (detector_state 1000312 512 [1] [(0, 0.8, 999800)])
     = num_timesteps (detector_state 1000312 512 [] [])
   \<and> n_steps (detector_state 1000312 512 [1] [(0, 0.8, 999800)])
     = n_steps (detector_state 1000312 512 [] [])
   \<and> task_change_declared (detector_state 1000312 512 [1] [(0, 0.8, 999800)]) [0.9]
   \<and> \<not> task_change_declared (detector_state 1000312 512 [] []) [0.9]
   \<and> train_task_change (detector_state 1000312 512 [1] [(0, 0.8, 999800)]) []
       = Inr (detector_state 1000312 512 [1] [(0, 0.8, 999800)])"
  by (simp add: detector_state_def init_trainer_def task_change_declared_def
      detect_task_change_def boundary_crossed_def state_of_def Let_def
      train_task_change_def np_mean_def)

text \<open>
  C5, amended. \<^verbatim>\<open>train\<close> calls the detector once in every iteration whose episode
  buffer is non-empty, and not at all when it is empty (the state is then returned
  unchanged); the iteration's task-change counter moves exactly as that one call
  decides. The decision depends only on \<open>num_timesteps\<close>, \<open>n_steps\<close> and on whether
  previous rewards are cached: two calls that agree on these decide alike, whatever the
  current episode returns and the values of the cached rewards, which reach the
  printed statistics only.
\<close>

theorem detector_decision_independent_of_rewards:
  "(num_timesteps st = num_timesteps st' \<and> n_steps st = n_steps st'
      \<and> (previous_rewards st = []) = (previous_rewards st' = []) \<longrightarrow>
      task_change_declared st cr = task_change_declared st' cr')
   \<and> train_task_change st [] = Inr st
   \<and> (ep \<noteq> [] \<longrightarrow>
        (td_counter (state_of (train_task_change st ep)) = td_counter st + 1)
          = task_change_declared st ep)"
proof (intro conjI impI)
  assume h: "num_timesteps st = num_timesteps st' \<and> n_steps st = n_steps st'
      \<and> (previous_rewards st = []) = (previous_rewards st' = [])"
  show "task_change_declared st cr = task_change_declared st' cr'"
  proof (cases "previous_rewards st = []")
    case True
    with h show ?thesis by (simp add: declared_first_call)
  next
    case False
    with h show ?thesis by (simp add: declared_iff boundary_crossed_def)
  qed
next
  show "train_task_change st [] = Inr st"
    by (rule train_task_change_empty)
next
  assume "ep \<noteq> []"
  then show "(td_counter (state_of (train_task_change st ep)) = td_counter st + 1)
          = task_change_declared st ep"
    by (rule train_declared)
qed

theorem detector_decision_witness:
  "task_change_declared (detector_state 1000312 512 [1] [(0, 0.8, 999800)]) [0.9]
     = task_change_declared (detector_state 1000312 512 [0.2, 0.4] []) []
   \<and> [0.9] \<noteq> ([]::real list)
   \<and> (td_counter (state_of (train_task_change
          (detector_state 1000312 512 [1] [(0, 0.8, 999800)]) [0.9]))
        = td_counter (detector_state 1000312 512 [1] [(0, 0.8, 999800)]) + 1)
       = task_change_declared (detector_state 1000312 512 [1] [(0, 0.8, 999800)]) [0.9]"
proof -
  let ?a = "detector_state 1000312 512 [1] [(0, 0.8, 999800)]"
  let ?b = "detector_state 1000312 512 [0.2, 0.4] []"
  have h: "num_timesteps ?a = num_timesteps ?b \<and> n_steps ?a = n_steps ?b
      \<and> (previous_rewards ?a = []) = (previous_rewards ?b = [])"
    by (simp add: detector_state_def init_trainer_def)
  have e: "[0.9] \<noteq> ([]::real list)" by simp
  from h e detector_decision_independent_of_rewards [of ?a ?b "[0.9]" "[]" "[0.9]"]
  show ?thesis by blast
qed

text \<open>
  C2, evaluated on the code: at 1,000,312 steps with \<open>n_steps = 512\<close>, cached previous
  rewards and an empty archive, the detector increments the task-change counter and
  then raises \<^verbatim>\<open>IndexError\<close> at \<^verbatim>\<open>self.good_policies[0]\<close>; the exception leaves
  \<^verbatim>\<open>train\<close> as well. The anchor is still unset in the state at the raise.
\<close>

theorem detect_task_change_empty_archive_raises:
  "raised (detect_task_change (detector_state 1000312 512 [0.2] []) [0.3]) = Some IndexError
   \<and> raised (train_task_change (detector_state 1000312 512 [0.2] []) [0.3]) = Some IndexError
   \<and> td_counter (state_of (detect_task_change (detector_state 1000312 512 [0.2] []) [0.3])) = 1
   \<and> anchor_policy (state_of (detect_task_change (detector_state 1000312 512 [0.2] []) [0.3]))
       = None"
  by (simp add: run_simps)

subsection \<open>Snapshots and the live policy\<close>

text \<open>
  C1, evaluated on the code: a trainer whose policy parameters are \<open>[1]\<close>, an optimiser
  that adds one per step, one gradient step per iteration, mean reward 0.6 against a
  threshold 0.5. The record admitted at 999,800 steps holds the parameters \<open>[2]\<close> at
  admission; after the next iteration both records of the archive read \<open>[3]\<close>, the
  live parameters. The anchor installed at 1,000,312 steps is the record of timestep
  999,800, it reads \<open>[3]\<close>, and after one more iteration \<open>[4]\<close>: every stored policy is
  the live policy object, and the optimiser's steps reach the anchor.
\<close>

theorem archive_snapshot_aliases_live_policy:
  "snapshot_params (state_of (train_iterations unit_engine (init_trainer 0.5 5 512 196 0 [1])
      [(999800, [0.6])])) = [[2]]
   \<and> snapshot_params (state_of (train_iterations unit_engine (init_trainer 0.5 5 512 196 0 [1])
      [(999800, [0.6]), (1000312, [0.6])])) = [[3], [3]]
   \<and> anchor_policy_timestep (state_of (train_iterations unit_engine
      (init_trainer 0.5 5 512 196 0 [1]) [(999800, [0.6]), (1000312, [0.6])])) = 999800
   \<and> anchor_params (state_of (train_iterations unit_engine (init_trainer 0.5 5 512 196 0 [1])
      [(999800, [0.6]), (1000312, [0.6])])) = Some [3]
   \<and> anchor_params (state_of (train_iterations unit_engine (init_trainer 0.5 5 512 196 0 [1])
      [(999800, [0.6]), (1000312, [0.6]), (1000824, [0.6])])) = Some [4]"
  by (simp add: run_simps)

subsection \<open>The update loop and its early stop\<close>

lemma loop_continues:
  "fst (minibatch_loop E e bs st) \<Longrightarrow> snd (minibatch_loop E e bs st) = gradient_steps E bs st"
  by (induction bs arbitrary: st) (simp_all split: if_splits)

lemma loop_stops:
  "\<not> fst (minibatch_loop E e bs st) \<Longrightarrow>
   \<exists>n < length bs.
     kl_exceeds E (gradient_steps E (take n bs) st) (bs ! n) \<and>
     snd (minibatch_loop E e bs st) = report_stop E e (gradient_steps E (take n bs) st) (bs ! n)"
proof (induction bs arbitrary: st)
  case Nil
  then show ?case by simp
next
  case (Cons b bs)
  show ?case
  proof (cases "kl_exceeds E st b")
    case True
    then have "kl_exceeds E (gradient_steps E (take 0 (b # bs)) st) ((b # bs) ! 0) \<and>
      snd (minibatch_loop E e (b # bs) st)
        = report_stop E e (gradient_steps E (take 0 (b # bs)) st) ((b # bs) ! 0)"
      by simp
    then show ?thesis by blast
  next
    case False
    with Cons.prems have "\<not> fst (minibatch_loop E e bs (gradient_step E st b))" by simp
    from Cons.IH [OF this] obtain n where n: "n < length bs"
      "kl_exceeds E (gradient_steps E (take n bs) (gradient_step E st b)) (bs ! n)"
      "snd (minibatch_loop E e bs (gradient_step E st b))
         = report_stop E e (gradient_steps E (take n bs) (gradient_step E st b)) (bs ! n)"
      by blast
    with False have "Suc n < length (b # bs) \<and>
      kl_exceeds E (gradient_steps E (take (Suc n) (b # bs)) st) ((b # bs) ! Suc n) \<and>
      snd (minibatch_loop E e (b # bs) st)
        = report_stop E e (gradient_steps E (take (Suc n) (b # bs)) st) ((b # bs) ! Suc n)"
      by simp
    then show ?thesis by blast
  qed
qed

lemma epoch_stop:
  "\<not> fst (minibatch_loop E e (rollout_get E e) st) \<Longrightarrow>
   epoch_loop E (e # es) st =
     (snd (minibatch_loop E e (rollout_get E e) st))
       \<lparr>n_updates := n_updates (snd (minibatch_loop E e (rollout_get E e) st)) + 1\<rparr>"
  by (cases "minibatch_loop E e (rollout_get E e) st") (simp add: Let_def)

lemma report_stop_heap: "heap (report_stop E e st b) = heap st"
  by (simp add: report_stop_def)

text \<open>
  C7, the claim as stated fails: from the parameters \<open>[1]\<close>, with a KL target of 0.5
  and two mini-batches per epoch, the first mini-batch passes the KL test and gets its
  gradient step (parameters \<open>[2]\<close>), the second exceeds the bound; the update ends with
  the parameters \<open>[2]\<close>, not with \<open>[3]\<close> as a step for the second mini-batch would
  give: the mini-batch that triggers the stop gets no gradient step. One epoch is
  counted and epoch 0 is printed.
\<close>

theorem early_stop_step_counterexample:
  "\<not> kl_exceeds stop_engine (init_trainer 0.5 5 512 196 0 [1]) ()
   \<and> kl_exceeds stop_engine (gradient_step stop_engine (init_trainer 0.5 5 512 196 0 [1]) ()) ()
   \<and> heap (train_update stop_engine (init_trainer 0.5 5 512 196 0 [1])) 0 = [2]
   \<and> heap (gradient_steps stop_engine [(), ()] (init_trainer 0.5 5 512 196 0 [1])) 0 = [3]
   \<and> n_updates (train_update stop_engine (init_trainer 0.5 5 512 196 0 [1])) = 1
   \<and> stdout (train_update stop_engine (init_trainer 0.5 5 512 196 0 [1])) = [EarlyStopping 0 1]"
  by (simp add: stop_engine_def init_trainer_def train_update_def kl_exceeds_def gradient_step_def
      report_stop_def upt_rec Let_def)

text \<open>
  C7, amended. For every mini-batch the early-stop test comes before the gradient
  step. A mini-batch whose approximate KL exceeds \<open>1.5 * target_kl\<close> gets no gradient
  step: the loop leaves the live parameters as they are, skips the remaining
  mini-batches of the epoch, and prints the epoch index when \<open>verbose \<ge> 1\<close>; the epoch
  is still counted in \<open>n_updates\<close> and no later epoch runs. A mini-batch that passes the
  test gets exactly one gradient step (back-propagation, clipping of the gradient norm
  at \<open>max_grad_norm\<close>, optimiser step) before the next one is looked at. So an epoch
  that is not stopped applies one step per mini-batch, and a stopped one applies the
  steps of the mini-batches before the stopping one and no other.
\<close>

theorem early_stop_precedes_gradient_step:
  "(kl_exceeds E st b \<longrightarrow>
      minibatch_loop E e (b # bs) st = (False, report_stop E e st b)
      \<and> heap (report_stop E e st b) = heap st)
   \<and> (kl_exceeds E st b \<and> verbose E \<ge> 1 \<longrightarrow>
        stdout (report_stop E e st b)
          = stdout st @ [EarlyStopping e (approx_kl_div E (heap st (policy st)) b)])
   \<and> (\<not> kl_exceeds E st b \<longrightarrow>
        minibatch_loop E e (b # bs) st = minibatch_loop E e bs (gradient_step E st b))
   \<and> (fst (minibatch_loop E e bs st) \<longrightarrow>
        snd (minibatch_loop E e bs st) = gradient_steps E bs st)
   \<and> (\<not> fst (minibatch_loop E e bs st) \<longrightarrow>
        (\<exists>n < length bs.
           kl_exceeds E (gradient_steps E (take n bs) st) (bs ! n) \<and>
           snd (minibatch_loop E e bs st)
             = report_stop E e (gradient_steps E (take n bs) st) (bs ! n)))
   \<and> (\<not> fst (minibatch_loop E e (rollout_get E e) st) \<longrightarrow>
        epoch_loop E (e # es) st =
          (snd (minibatch_loop E e (rollout_get E e) st))
            \<lparr>n_updates := n_updates (snd (minibatch_loop E e (rollout_get E e) st)) + 1\<rparr>)"
proof (intro conjI impI)
  assume "kl_exceeds E st b"
  then show "minibatch_loop E e (b # bs) st = (False, report_stop E e st b)"
    by simp
next
  show "heap (report_stop E e st b) = heap st"
    by (rule report_stop_heap)
next
  assume "kl_exceeds E st b \<and> verbose E \<ge> 1"
  then show "stdout (report_stop E e st b)
          = stdout st @ [EarlyStopping e (approx_kl_div E (heap st (policy st)) b)]"
    by (simp add: report_stop_def)
next
  assume "\<not> kl_exceeds E st b"
  then show "minibatch_loop E e (b # bs) st = minibatch_loop E e bs (gradient_step E st b)"
    by simp
next
  assume "fst (minibatch_loop E e bs st)"
  then show "snd (minibatch_loop E e bs st) = gradient_steps E bs st"
    by (rule loop_continues)
next
  assume "\<not> fst (minibatch_loop E e bs st)"
  then show "\<exists>n < length bs.
           kl_exceeds E (gradient_steps E (take n bs) st) (bs ! n) \<and>
           snd (minibatch_loop E e bs st)
             = report_stop E e (gradient_steps E (take n bs) st) (bs ! n)"
    by (rule loop_stops)
next
  assume "\<not> fst (minibatch_loop E e (rollout_get E e) st)"
  then show "epoch_loop E (e # es) st =
          (snd (minibatch_loop E e (rollout_get E e) st))
            \<lparr>n_updates := n_updates (snd (minibatch_loop E e (rollout_get E e) st)) + 1\<rparr>"
    by (rule epoch_stop)
qed

theorem early_stop_witness:
  "kl_exceeds stop_engine (gradient_step stop_engine (init_trainer 0.5 5 512 196 0 [1]) ()) ()
   \<and> verbose stop_engine \<ge> 1
   \<and> minibatch_loop stop_engine 0 [(), ()]
        (gradient_step stop_engine (init_trainer 0.5 5 512 196 0 [1]) ())
       = (False, report_stop stop_engine 0
                   (gradient_step stop_engine (init_trainer 0.5 5 512 196 0 [1]) ()) ())
   \<and> heap (report_stop stop_engine 0
              (gradient_step stop_engine (init_trainer 0.5 5 512 196 0 [1]) ()) ()) 0 = [2]
   \<and> \<not> kl_exceeds stop_engine (init_trainer 0.5 5 512 196 0 [1]) ()
   \<and> minibatch_loop stop_engine 0 [(), ()] (init_trainer 0.5 5 512 196 0 [1])
       = minibatch_loop stop_engine 0 [()]
           (gradient_step stop_engine (init_trainer 0.5 5 512 196 0 [1]) ())"
proof -
  let ?s0 = "init_trainer 0.5 5 512 196 0 [1]"
  let ?s1 = "gradient_step stop_engine ?s0 ()"
  have a: "kl_exceeds stop_engine ?s1 ()"
    by (simp add: stop_engine_def init_trainer_def kl_exceeds_def gradient_step_def)
  have v: "verbose stop_engine \<ge> 1"
    by (simp add: stop_engine_def)
  have b: "\<not> kl_exceeds stop_engine ?s0 ()"
    by (simp add: stop_engine_def init_trainer_def kl_exceeds_def)
  have h: "heap ?s1 0 = [2]"
    by (simp add: stop_engine_def init_trainer_def gradient_step_def)
  from a early_stop_precedes_gradient_step [of stop_engine ?s1 "()" 0 "[()]"]
  have 1: "minibatch_loop stop_engine 0 [(), ()] ?s1 = (False, report_stop stop_engine 0 ?s1 ())"
    and 2: "heap (report_stop stop_engine 0 ?s1 ()) = heap ?s1"
    by blast+
  from b early_stop_precedes_gradient_step [of stop_engine ?s0 "()" 0 "[()]"]
  have 3: "minibatch_loop stop_engine 0 [(), ()] ?s0 = minibatch_loop stop_engine 0 [()] ?s1"
    by blast
  from 2 h have 4: "heap (report_stop stop_engine 0 ?s1 ()) 0 = [2]"
    by simp
  from a v b 1 3 4 show ?thesis
    by blast
qed

subsection \<open>The clipped surrogate\<close>

text \<open>
  C8. For every ratio \<open>r\<close> with \<open>|r - 1| \<le> \<epsilon>\<close> the clipped surrogate of a sample equals
  the unclipped term \<open>r * A\<close>; for every ratio, so also outside that band, it is at most
  \<open>clip(r, 1 - \<epsilon>, 1 + \<epsilon>) * A\<close>. With \<open>clip_range = 0.2\<close>, ratio 1.5, advantage 1 and no
  anchor, the unreduced policy-loss term of the sample is \<open>- min(1.5, 1.2) = - 1.2\<close>,
  whatever the anchor coefficient and the current policy's log-probabilities.
\<close>

theorem clipped_surrogate_band:
  "(\<bar>r - 1\<bar> \<le> eps \<longrightarrow> clipped_surrogate A r eps = A * r)
   \<and> clipped_surrogate A r eps \<le> A * th_clamp r (1 - eps) (1 + eps)
   \<and> policy_loss [1] [1.5] 0.2 coef (anchor_policy_kl_div None cur_lp) = Some [- 1.2]
   \<and> policy_loss [1] [1.5] 0.2 coef (anchor_policy_kl_div None cur_lp)
       = Some [- min 1.5 1.2]"
proof (intro conjI impI)
  assume "\<bar>r - 1\<bar> \<le> eps"
  then show "clipped_surrogate A r eps = A * r"
    by (simp add: clipped_surrogate_def th_clamp_def min_def max_def abs_le_iff)
next
  show "clipped_surrogate A r eps \<le> A * th_clamp r (1 - eps) (1 + eps)"
    by (simp add: clipped_surrogate_def)
next
  show "policy_loss [1] [1.5] 0.2 coef (anchor_policy_kl_div None cur_lp) = Some [- 1.2]"
    by (simp add: policy_loss_def anchor_policy_kl_div_def clipped_surrogate_def th_clamp_def)
next
  show "policy_loss [1] [1.5] 0.2 coef (anchor_policy_kl_div None cur_lp) = Some [- min 1.5 1.2]"
    by (simp add: policy_loss_def anchor_policy_kl_div_def clipped_surrogate_def th_clamp_def)
qed

theorem clipped_surrogate_band_witness:
  "\<bar>(1.1::real) - 1\<bar> \<le> 0.2 \<and> clipped_surrogate 2 1.1 0.2 = 2.2
   \<and> clipped_surrogate 1 1.5 0.2 \<le> 1.2"
proof -
  have a: "\<bar>(1.1::real) - 1\<bar> \<le> 0.2" by simp
  from a clipped_surrogate_band [of "1.1" "0.2" 2]
  have 1: "clipped_surrogate 2 1.1 0.2 = 2 * 1.1" by blast
  from clipped_surrogate_band [of "1.5" "0.2" 1]
  have 2: "clipped_surrogate 1 1.5 0.2 \<le> 1 * th_clamp 1.5 (1 - 0.2) (1 + 0.2)" by blast
  from a 1 2 show ?thesis
    by (simp add: th_clamp_def)
qed

subsection \<open>Construction checks and advantage normalisation\<close>

text \<open>
  C9, the claim as stated fails: with advantage normalisation disabled, a rollout
  buffer of \<open>n_steps * n_envs = 1\<close> passes the construction checks (with the
  divisibility warning for \<open>batch_size = 64\<close>); the buffer-size assertion reads
  \<^verbatim>\<open>buffer_size > 1 or (not normalize_advantage)\<close>.
\<close>

theorem init_checks_buffer_size_counterexample:
  "init_checks False 64 1 (Some 1) = Inr [TruncatedMiniBatch 1 0 1]"
  by (simp add: init_checks_def)

text \<open>
  C9, amended. The construction checks run in \<^verbatim>\<open>__init__\<close>, before any training
  iteration, and fail with an assertion error when advantage normalisation is enabled
  and \<open>batch_size \<le> 1\<close>, and when advantage normalisation is enabled and
  \<open>n_steps * n_envs \<le> 1\<close> (with normalisation disabled the buffer size is not
  checked). For a positive \<open>batch_size\<close> that passes these checks, a buffer size that
  is not a multiple of \<open>batch_size\<close> gives the warning and nothing else. In the update,
  a mini-batch of exactly one advantage is not normalised and keeps its raw advantage,
  whether normalisation is enabled or not.
\<close>

theorem init_checks_fail_fast:
  "(normalize_adv \<and> batch_sz \<le> 1 \<longrightarrow>
      init_checks normalize_adv batch_sz steps env = Inl AssertionError)
   \<and> (normalize_adv \<and> num_envs * steps \<le> 1 \<longrightarrow>
        init_checks normalize_adv batch_sz steps (Some num_envs) = Inl AssertionError)
   \<and> (0 < batch_sz \<and> (normalize_adv \<longrightarrow> 1 < batch_sz \<and> 1 < num_envs * steps)
        \<and> (num_envs * steps) mod batch_sz \<noteq> 0 \<longrightarrow>
        init_checks normalize_adv batch_sz steps (Some num_envs) =
          Inr [TruncatedMiniBatch (num_envs * steps) ((num_envs * steps) div batch_sz)
                 ((num_envs * steps) mod batch_sz)])
   \<and> (length advantages = 1 \<longrightarrow> normalize_advantages normalize_adv advantages = advantages)"
proof (intro conjI impI)
  assume "normalize_adv \<and> batch_sz \<le> 1"
  then show "init_checks normalize_adv batch_sz steps env = Inl AssertionError"
    by (simp add: init_checks_def)
next
  assume "normalize_adv \<and> num_envs * steps \<le> 1"
  then show "init_checks normalize_adv batch_sz steps (Some num_envs) = Inl AssertionError"
    by (simp add: init_checks_def Let_def)
next
  assume "0 < batch_sz \<and> (normalize_adv \<longrightarrow> 1 < batch_sz \<and> 1 < num_envs * steps)
        \<and> (num_envs * steps) mod batch_sz \<noteq> 0"
  then show "init_checks normalize_adv batch_sz steps (Some num_envs) =
          Inr [TruncatedMiniBatch (num_envs * steps) ((num_envs * steps) div batch_sz)
                 ((num_envs * steps) mod batch_sz)]"
    by (auto simp add: init_checks_def Let_def dest: pos_mod_sign [of batch_sz "num_envs * steps"])
next
  assume "length advantages = 1"
  then show "normalize_advantages normalize_adv advantages = advantages"
    by (simp add: normalize_advantages_def)
qed

theorem init_checks_fail_fast_witness:
  "init_checks True 1 512 (Some 1) = Inl AssertionError
   \<and> init_checks True 64 1 (Some 1) = Inl AssertionError
   \<and> init_checks True 64 100 (Some 1) = Inr [TruncatedMiniBatch 100 1 36]
   \<and> normalize_advantages True [3] = [3]"
proof -
  have a: "True \<and> (1::int) \<le> 1" by simp
  have b: "True \<and> (1::int) * 1 \<le> 1" by simp
  have c: "(0::int) < 64 \<and> (True \<longrightarrow> (1::int) < 64 \<and> (1::int) < 1 * 100)
        \<and> ((1::int) * 100) mod 64 \<noteq> 0" by simp
  have d: "length [3::real] = 1" by simp
  from a init_checks_fail_fast [of True 1 512 "Some 1"]
  have 1: "init_checks True 1 512 (Some 1) = Inl AssertionError" by blast
  from b init_checks_fail_fast [of True 64 1 "Some 1" 1]
  have 2: "init_checks True 64 1 (Some 1) = Inl AssertionError" by blast
  from c init_checks_fail_fast [of True 64 100 "Some 1" 1]
  have 3: "init_checks True 64 100 (Some 1) =
          Inr [TruncatedMiniBatch (1 * 100) ((1 * 100) div 64) ((1 * 100) mod 64)]" by blast
  from d init_checks_fail_fast [of True 64 100 "Some 1" 1 "[3]"]
  have 4: "normalize_advantages True [3] = [3]" by blast
  from 1 2 3 4 show ?thesis by simp
qed

subsection \<open>The anchor penalty\<close>







end
